theory Spec2Isabelle
  imports Complex_Main "HOL-Library.Sublist"
begin

section \<open>Data model\<close>

text \<open>
  The dashboard is a set of React function components over hard-coded arrays. The
  components modelled here are \<^verbatim>\<open>DataTable\<close> and \<^verbatim>\<open>KPICards\<close>
  (\<^verbatim>\<open>src/components/DataTable.tsx\<close>, which holds both), \<^verbatim>\<open>SmartFuelRecommender\<close>
  and \<^verbatim>\<open>MainCharts\<close>.

  JavaScript strings are modelled as \<^typ>\<open>string\<close>; a character outside ASCII is written
  as the bytes of its UTF-8 encoding, which keeps string equality as it is. JavaScript
  numbers that are only ever displayed (litres, prices, percentages) are \<^typ>\<open>real\<close>
  literals; the identifiers of stations are integers. Field names that would
  clash between records or with a HOL constant carry a suffix (\<open>id_tx\<close>, \<open>card_tx\<close>,
  \<open>id_st\<close>, \<open>id_kpi\<close>, ...).
\<close>

datatype risk = Low | Medium | High

text \<open>The union type \<^verbatim>\<open>'Low' | 'Medium' | 'High'\<close> is a string at run time.\<close>

fun risk_str :: "risk \<Rightarrow> string" where
  "risk_str Low = ''Low''"
| "risk_str Medium = ''Medium''"
| "risk_str High = ''High''"

record timelineItem =
  time_ev :: string
  event_ev :: string

record details =
  vehicle :: string
  route :: string
  previousTransactions :: int
  timeline :: "timelineItem list"

record transaction =
  id_tx :: string
  time_tx :: string
  card_tx :: string
  driver :: string
  station :: string
  liters :: real
  price :: real
  deviation :: real
  risk :: risk
  reviewed :: bool
  details :: "details option"

definition azs :: string where
  "azs = [CHR 0xD0, CHR 0x90, CHR 0xD0, CHR 0x97, CHR 0xD0, CHR 0xA1]"

definition arrow :: string where
  "arrow = [CHR 0xE2, CHR 0x86, CHR 0x92]"

definition mockTransactions :: "transaction list" where
  "mockTransactions = [
    \<lparr> id_tx = ''1'', time_tx = ''14:32'', card_tx = ''****1234'',
      driver = [CHR 0xD0, CHR 0x98, CHR 0xD0, CHR 0xB2, CHR 0xD0, CHR 0xB0, CHR 0xD0, CHR 0xBD,
                CHR 0xD0, CHR 0xBE, CHR 0xD0, CHR 0xB2] @ '' '' @ [CHR 0xD0, CHR 0x98] @ ''.''
               @ [CHR 0xD0, CHR 0x98] @ ''.'',
      station = azs @ '' #42'', liters = 45.2, price = 2850, deviation = 12.5,
      risk = High, reviewed = False,
      details = Some \<lparr>
        vehicle = [CHR 0xD0, CHR 0x93, CHR 0xD0, CHR 0x90, CHR 0xD0, CHR 0x97] @ ''-3302 (''
                  @ [CHR 0xD0, CHR 0x90] @ ''123'' @ [CHR 0xD0, CHR 0x91, CHR 0xD0, CHR 0x92]
                  @ '')'',
        route = [CHR 0xD0, CHR 0x9C, CHR 0xD0, CHR 0xBE, CHR 0xD1, CHR 0x81, CHR 0xD0, CHR 0xBA,
                 CHR 0xD0, CHR 0xB2, CHR 0xD0, CHR 0xB0] @ '' '' @ arrow @ '' ''
                @ [CHR 0xD0, CHR 0xA1, CHR 0xD0, CHR 0xB0, CHR 0xD0, CHR 0xBD, CHR 0xD0, CHR 0xBA,
                   CHR 0xD1, CHR 0x82] @ ''-''
                @ [CHR 0xD0, CHR 0x9F, CHR 0xD0, CHR 0xB5, CHR 0xD1, CHR 0x82, CHR 0xD0, CHR 0xB5,
                   CHR 0xD1, CHR 0x80, CHR 0xD0, CHR 0xB1, CHR 0xD1, CHR 0x83, CHR 0xD1, CHR 0x80,
                   CHR 0xD0, CHR 0xB3],
        previousTransactions = 12,
        timeline = [
          \<lparr> time_ev = ''14:30'', event_ev = ''Transaction initiated'' \<rparr>,
          \<lparr> time_ev = ''14:31'', event_ev = ''Payment processed'' \<rparr>,
          \<lparr> time_ev = ''14:32'', event_ev = ''Fuel dispensed'' \<rparr>,
          \<lparr> time_ev = ''14:33'', event_ev = ''Anomaly detected'' \<rparr> ] \<rparr> \<rparr>,
    \<lparr> id_tx = ''2'', time_tx = ''13:15'', card_tx = ''****5678'',
      driver = [CHR 0xD0, CHR 0x9F, CHR 0xD0, CHR 0xB5, CHR 0xD1, CHR 0x82, CHR 0xD1, CHR 0x80,
                CHR 0xD0, CHR 0xBE, CHR 0xD0, CHR 0xB2] @ '' '' @ [CHR 0xD0, CHR 0x9F] @ ''.''
               @ [CHR 0xD0, CHR 0x9F] @ ''.'',
      station = azs @ '' #18'', liters = 38.7, price = 2450, deviation = - 2.1,
      risk = Low, reviewed = True,
      details = None \<rparr>,
    \<lparr> id_tx = ''3'', time_tx = ''12:45'', card_tx = ''****9012'',
      driver = [CHR 0xD0, CHR 0xA1, CHR 0xD0, CHR 0xB8, CHR 0xD0, CHR 0xB4, CHR 0xD0, CHR 0xBE,
                CHR 0xD1, CHR 0x80, CHR 0xD0, CHR 0xBE, CHR 0xD0, CHR 0xB2] @ '' ''
               @ [CHR 0xD0, CHR 0xA1] @ ''.'' @ [CHR 0xD0, CHR 0xA1] @ ''.'',
      station = azs @ '' #7'', liters = 52.3, price = 3100, deviation = 18.3,
      risk = High, reviewed = False,
      details = Some \<lparr>
        vehicle = [CHR 0xD0, CHR 0x9A, CHR 0xD0, CHR 0x90, CHR 0xD0, CHR 0x9C, CHR 0xD0, CHR 0x90,
                   CHR 0xD0, CHR 0x97] @ ''-65117 ('' @ [CHR 0xD0, CHR 0x92] @ ''456''
                  @ [CHR 0xD0, CHR 0x93, CHR 0xD0, CHR 0x94] @ '')'',
        route = [CHR 0xD0, CHR 0x9A, CHR 0xD0, CHR 0xB0, CHR 0xD0, CHR 0xB7, CHR 0xD0, CHR 0xB0,
                 CHR 0xD0, CHR 0xBD, CHR 0xD1, CHR 0x8C] @ '' '' @ arrow @ '' ''
                @ [CHR 0xD0, CHR 0xA3, CHR 0xD1, CHR 0x84, CHR 0xD0, CHR 0xB0],
        previousTransactions = 8,
        timeline = [
          \<lparr> time_ev = ''12:43'', event_ev = ''Transaction initiated'' \<rparr>,
          \<lparr> time_ev = ''12:44'', event_ev = ''Payment processed'' \<rparr>,
          \<lparr> time_ev = ''12:45'', event_ev = ''Fuel dispensed'' \<rparr>,
          \<lparr> time_ev = ''12:46'', event_ev = ''Anomaly detected'' \<rparr> ] \<rparr> \<rparr> ]"

section \<open>The risk filter of the transaction table\<close>

text \<open>
  \<^verbatim>\<open>Array.prototype.filter\<close>: walk the array from the front and keep the elements on
  which the callback returns true.
\<close>

fun array_filter :: "('a \<Rightarrow> bool) \<Rightarrow> 'a list \<Rightarrow> 'a list" where
  "array_filter f [] = []"
| "array_filter f (x # xs) = (if f x then x # array_filter f xs else array_filter f xs)"

text \<open>
  The callback of \<^verbatim>\<open>filteredTransactions\<close>:
  \<^verbatim>\<open>if (riskFilter !== 'All' && t.risk !== riskFilter) return false; return true\<close>.
\<close>

definition keepTransaction :: "string \<Rightarrow> transaction \<Rightarrow> bool" where
  "keepTransaction riskFilter t =
     (if riskFilter \<noteq> ''All'' \<and> risk_str (risk t) \<noteq> riskFilter then False else True)"

definition filterByRisk :: "transaction list \<Rightarrow> string \<Rightarrow> transaction list" where
  "filterByRisk T riskFilter = array_filter (keepTransaction riskFilter) T"


section \<open>The other catalogs\<close>

record station =
  id_st :: int
  name_st :: string
  address :: string
  price_st :: real
  savings :: real
  distance :: string

definition topStations :: "station list" where
  "topStations = [
    \<lparr> id_st = 1, name_st = azs @ '' #18'',
      address = [CHR 0xD0, CHR 0x9B, CHR 0xD0, CHR 0xB5, CHR 0xD0, CHR 0xBD, CHR 0xD0, CHR 0xB8,
                 CHR 0xD0, CHR 0xBD, CHR 0xD0, CHR 0xB3, CHR 0xD1, CHR 0x80, CHR 0xD0, CHR 0xB0,
                 CHR 0xD0, CHR 0xB4, CHR 0xD1, CHR 0x81, CHR 0xD0, CHR 0xBA, CHR 0xD0, CHR 0xBE,
                 CHR 0xD0, CHR 0xB5] @ '' '' @ [CHR 0xD1, CHR 0x88] @ ''., 45 ''
                @ [CHR 0xD0, CHR 0xBA, CHR 0xD0, CHR 0xBC],
      price_st = 48.50, savings = 8.2, distance = ''2.3 km'' \<rparr>,
    \<lparr> id_st = 2, name_st = azs @ '' #42'',
      address = [CHR 0xD0, CHR 0x9C, CHR 0xD0, CHR 0x9A, CHR 0xD0, CHR 0x90, CHR 0xD0, CHR 0x94]
                @ '', 78 '' @ [CHR 0xD0, CHR 0xBA, CHR 0xD0, CHR 0xBC],
      price_st = 49.20, savings = 6.5, distance = ''5.1 km'' \<rparr>,
    \<lparr> id_st = 3, name_st = azs @ '' #7'',
      address = [CHR 0xD0, CHR 0x92, CHR 0xD0, CHR 0xBE, CHR 0xD0, CHR 0xBB, CHR 0xD0, CHR 0xBE,
                 CHR 0xD0, CHR 0xBA, CHR 0xD0, CHR 0xBE, CHR 0xD0, CHR 0xBB, CHR 0xD0, CHR 0xB0,
                 CHR 0xD0, CHR 0xBC, CHR 0xD1, CHR 0x81, CHR 0xD0, CHR 0xBA, CHR 0xD0, CHR 0xBE,
                 CHR 0xD0, CHR 0xB5] @ '' '' @ [CHR 0xD1, CHR 0x88] @ ''., 12 ''
                @ [CHR 0xD0, CHR 0xBA, CHR 0xD0, CHR 0xBC],
      price_st = 47.80, savings = 9.1, distance = ''8.7 km'' \<rparr> ]"

text \<open>The \<^verbatim>\<open>icon\<close> of a KPI is a rendered element and is left out.\<close>

record kpi =
  id_kpi :: string
  title :: string
  value_kpi :: string
  delta :: real

definition kpis :: "kpi list" where
  "kpis = [
    \<lparr> id_kpi = ''revenue'', title = ''Total Revenue'',
      value_kpi = [CHR 0xE2, CHR 0x82, CHR 0xBD] @ ''12.4M'', delta = 12.5 \<rparr>,
    \<lparr> id_kpi = ''transactions'', title = ''Transactions'', value_kpi = ''8,234'',
      delta = - 3.2 \<rparr>,
    \<lparr> id_kpi = ''anomalies'', title = ''Anomalies'', value_kpi = ''47'', delta = 8.1 \<rparr>,
    \<lparr> id_kpi = ''active_drivers'', title = ''Active Drivers'', value_kpi = ''1,234'',
      delta = 5.7 \<rparr> ]"

record seriesPoint =
  date :: string
  volume :: int
  revenue :: int
  margin :: int

definition chartData :: "seriesPoint list" where
  "chartData = [
    \<lparr> date = ''Mon'', volume = 1200, revenue = 2400, margin = 1800 \<rparr>,
    \<lparr> date = ''Tue'', volume = 1900, revenue = 3800, margin = 2900 \<rparr>,
    \<lparr> date = ''Wed'', volume = 1500, revenue = 3000, margin = 2200 \<rparr>,
    \<lparr> date = ''Thu'', volume = 2100, revenue = 4200, margin = 3200 \<rparr>,
    \<lparr> date = ''Fri'', volume = 1800, revenue = 3600, margin = 2700 \<rparr>,
    \<lparr> date = ''Sat'', volume = 1600, revenue = 3200, margin = 2400 \<rparr>,
    \<lparr> date = ''Sun'', volume = 1400, revenue = 2800, margin = 2100 \<rparr> ]"

datatype period = Day | Week | Month

section \<open>Component state\<close>

text \<open>
  One record holds what the four components keep in \<^verbatim>\<open>useState\<close> during one mounting:
  \<open>selectedKPI\<close> (\<^verbatim>\<open>KPICards\<close>), \<open>period\<close> (\<^verbatim>\<open>MainCharts\<close>), \<open>expandedRows\<close>,
  \<open>dateRange\<close>, \<open>region\<close>, \<open>riskFilter\<close> (\<^verbatim>\<open>DataTable\<close>) and \<open>savedOffers\<close>
  (\<^verbatim>\<open>SmartFuelRecommender\<close>). A JavaScript \<^verbatim>\<open>Set\<close> is read here only through
  \<^verbatim>\<open>has\<close>, so it is a HOL set.

  The record also holds the two module-level arrays a claim speaks of changing, as the
  objects they are in the JavaScript heap: \<open>transactions\<close> is the content of
  \<^verbatim>\<open>mockTransactions\<close> and \<open>series\<close> the content of \<^verbatim>\<open>chartData\<close>. The effects of
  \<^verbatim>\<open>markAsReviewed\<close> are two logs: the lines written with \<^verbatim>\<open>console.log\<close> and the
  messages shown with \<^verbatim>\<open>alert\<close>.

  Left out: the state of \<^verbatim>\<open>App\<close> (selected view, environment), and the two handlers
  that only open an alert box (\<^verbatim>\<open>Navigate\<close> of a station, the action of an insight).
\<close>

record dashboard =
  selectedKPI :: "string option"
  period :: period
  expandedRows :: "string set"
  dateRange :: string
  region :: string
  riskFilter :: string
  savedOffers :: "int set"
  transactions :: "transaction list"
  series :: "seriesPoint list"
  console :: "string list"
  alerts :: "string list"

definition initial :: dashboard where
  "initial = \<lparr> selectedKPI = None, period = Week, expandedRows = {}, dateRange = ''Today'',
     region = ''All'', riskFilter = ''All'', savedOffers = {},
     transactions = mockTransactions, series = chartData, console = [], alerts = [] \<rparr>"

subsection \<open>State setters and effects\<close>

definition setSelectedKPI :: "string option \<Rightarrow> dashboard \<Rightarrow> dashboard" where
  "setSelectedKPI v s = s\<lparr>selectedKPI := v\<rparr>"

definition setPeriod :: "period \<Rightarrow> dashboard \<Rightarrow> dashboard" where
  "setPeriod p s = s\<lparr>period := p\<rparr>"

definition setExpandedRows :: "string set \<Rightarrow> dashboard \<Rightarrow> dashboard" where
  "setExpandedRows v s = s\<lparr>expandedRows := v\<rparr>"

definition setDateRange :: "string \<Rightarrow> dashboard \<Rightarrow> dashboard" where
  "setDateRange v s = s\<lparr>dateRange := v\<rparr>"

definition setRegion :: "string \<Rightarrow> dashboard \<Rightarrow> dashboard" where
  "setRegion v s = s\<lparr>region := v\<rparr>"

definition setRiskFilter :: "string \<Rightarrow> dashboard \<Rightarrow> dashboard" where
  "setRiskFilter v s = s\<lparr>riskFilter := v\<rparr>"

definition setSavedOffers :: "int set \<Rightarrow> dashboard \<Rightarrow> dashboard" where
  "setSavedOffers v s = s\<lparr>savedOffers := v\<rparr>"

definition console_log :: "string \<Rightarrow> dashboard \<Rightarrow> dashboard" where
  "console_log msg s = s\<lparr>console := console s @ [msg]\<rparr>"

definition alert :: "string \<Rightarrow> dashboard \<Rightarrow> dashboard" where
  "alert msg s = s\<lparr>alerts := alerts s @ [msg]\<rparr>"

subsection \<open>Handlers of the transaction table\<close>

text \<open>
  \<^verbatim>\<open>toggleRow\<close> copies the set, deletes the id from the copy when it is there and adds
  it otherwise, and stores the copy.
\<close>

definition toggleRow :: "string \<Rightarrow> dashboard \<Rightarrow> dashboard" where
  "toggleRow i s =
     (let newExpanded = expandedRows s;
          newExpanded = (if i \<in> newExpanded then newExpanded - {i} else insert i newExpanded)
      in setExpandedRows newExpanded s)"

definition auditMessage :: "string \<Rightarrow> string" where
  "auditMessage i = ''Transaction '' @ i @ '' marked as reviewed. Audit log entry created.''"

text \<open>\<^verbatim>\<open>markAsReviewed\<close> writes the message to the console and shows it in an alert box.\<close>

definition markAsReviewed :: "string \<Rightarrow> dashboard \<Rightarrow> dashboard" where
  "markAsReviewed i s = alert (auditMessage i) (console_log (auditMessage i) s)"

definition filteredTransactions :: "dashboard \<Rightarrow> transaction list" where
  "filteredTransactions s = filterByRisk (transactions s) (riskFilter s)"

text \<open>The options of the three \<^verbatim>\<open>select\<close> elements; an option without a value has its text as value.\<close>

definition dateRangeOptions :: "string list" where
  "dateRangeOptions = [''Today'', ''Last 7 days'', ''Last 30 days'', ''Custom range'']"

definition regionOptions :: "string list" where
  "regionOptions = [''All Regions'', ''Moscow'', ''St. Petersburg'', ''Kazan'']"

definition riskOptions :: "string list" where
  "riskOptions = [''All Risk Levels'', ''Low'', ''Medium'', ''High'']"

subsection \<open>Handler of the station widget\<close>

definition toggleSave :: "int \<Rightarrow> dashboard \<Rightarrow> dashboard" where
  "toggleSave i s =
     (let newSaved = savedOffers s;
          newSaved = (if i \<in> newSaved then newSaved - {i} else insert i newSaved)
      in setSavedOffers newSaved s)"

subsection \<open>What is rendered\<close>

text \<open>
  The drill-down dialog is rendered under \<^verbatim>\<open>{selectedKPI && (...)}\<close>: not for
  \<^verbatim>\<open>null\<close> and not for the empty string.
\<close>

fun truthy :: "string option \<Rightarrow> bool" where
  "truthy None = False"
| "truthy (Some v) = (v \<noteq> [])"

definition dialogRendered :: "dashboard \<Rightarrow> bool" where
  "dialogRendered s = truthy (selectedKPI s)"

text \<open>The \<^verbatim>\<open>data\<close> property handed to the line chart.\<close>

definition lineChartData :: "dashboard \<Rightarrow> seriesPoint list" where
  "lineChartData s = series s"

section \<open>User events\<close>

text \<open>
  An event is a click or a change on an element that the current state renders; it
  carries the datum its handler closes over. \<open>step\<close> is \<open>None\<close> when the element is not
  rendered: a row exists for each filtered transaction, its button
  \<^verbatim>\<open>Mark as reviewed\<close> only when the transaction is not reviewed, the overlay, the dialog
  surface and the button \<^verbatim>\<open>Close\<close> only while the dialog is rendered. The button of a
  row and the dialog surface stop the propagation of the click, so the row and the overlay
  do not see it.
\<close>

datatype event =
    RowClick transaction
  | MarkReviewedClick transaction
  | DateRangeChange string
  | RegionChange string
  | RiskFilterChange string
  | KPICardClick kpi
  | OverlayClick
  | DialogClick
  | CloseClick
  | PeriodClick period
  | SaveClick station

fun step :: "event \<Rightarrow> dashboard \<Rightarrow> dashboard option" where
  "step (RowClick t) s =
     (if t \<in> set (filteredTransactions s) then Some (toggleRow (id_tx t) s) else None)"
| "step (MarkReviewedClick t) s =
     (if t \<in> set (filteredTransactions s) \<and> \<not> reviewed t
      then Some (markAsReviewed (id_tx t) s) else None)"
| "step (DateRangeChange v) s =
     (if v \<in> set dateRangeOptions then Some (setDateRange v s) else None)"
| "step (RegionChange v) s =
     (if v \<in> set regionOptions then Some (setRegion v s) else None)"
| "step (RiskFilterChange v) s =
     (if v \<in> set riskOptions then Some (setRiskFilter v s) else None)"
| "step (KPICardClick k) s =
     (if k \<in> set kpis then Some (setSelectedKPI (Some (id_kpi k)) s) else None)"
| "step OverlayClick s =
     (if dialogRendered s then Some (setSelectedKPI None s) else None)"
| "step DialogClick s = (if dialogRendered s then Some s else None)"
| "step CloseClick s =
     (if dialogRendered s then Some (setSelectedKPI None s) else None)"
| "step (PeriodClick p) s = Some (setPeriod p s)"
| "step (SaveClick st) s =
     (if st \<in> set topStations then Some (toggleSave (id_st st) s) else None)"

fun run :: "event list \<Rightarrow> dashboard \<Rightarrow> dashboard option" where
  "run [] s = Some s"
| "run (e # es) s = (case step e s of None \<Rightarrow> None | Some s' \<Rightarrow> run es s')"

section \<open>Vocabulary of the specification\<close>

text \<open>The \<open>reviewed\<close> field of the first transaction with the given id, if there is one.\<close>

fun reviewedOf :: "string \<Rightarrow> transaction list \<Rightarrow> bool option" where
  "reviewedOf i [] = None"
| "reviewedOf i (t # ts) = (if id_tx t = i then Some (reviewed t) else reviewedOf i ts)"

text \<open>The dialog as a state machine: closed, or open on a KPI.\<close>

datatype dialog = Closed | Open string

definition dialogState :: "dashboard \<Rightarrow> dialog" where
  "dialogState s =
     (case selectedKPI s of
        None \<Rightarrow> Closed
      | Some i \<Rightarrow> if dialogRendered s then Open i else Closed)"

text \<open>The events that are handled by the dialog's own state setter.\<close>

fun dialogEvent :: "event \<Rightarrow> bool" where
  "dialogEvent (KPICardClick k) = True"
| "dialogEvent OverlayClick = True"
| "dialogEvent CloseClick = True"
| "dialogEvent e = False"

section \<open>Properties of the risk filter\<close>

lemma array_filter_eq: "array_filter f xs = filter f xs"
  by (induction xs) simp_all

text \<open>
  C1. For every list of transactions \<open>T\<close> and every risk filter \<open>R\<close> other than
  \<open>''All''\<close>, the filter returns exactly the subsequence of \<open>T\<close> whose elements have
  risk \<open>R\<close>, in the order of \<open>T\<close>: it is the list of the elements of \<open>T\<close> with that risk,
  taken front to back, and a subsequence of \<open>T\<close>.
\<close>

theorem filterByRisk_subsequence:
  assumes "R \<noteq> ''All''"
  shows "filterByRisk T R = filter (\<lambda>t. risk_str (risk t) = R) T
         \<and> subseq (filterByRisk T R) T
         \<and> set (filterByRisk T R) = {t \<in> set T. risk_str (risk t) = R}"
proof -
  have k: "keepTransaction R = (\<lambda>t. risk_str (risk t) = R)"
    using assms by (simp add: keepTransaction_def fun_eq_iff)
  have e: "filterByRisk T R = filter (\<lambda>t. risk_str (risk t) = R) T"
    by (simp add: filterByRisk_def array_filter_eq k)
  show ?thesis
    by (simp add: e)
qed

text \<open>The sample catalog filtered by \<open>''High''\<close>: the transactions 1 and 3, in this order.\<close>

theorem filterByRisk_subsequence_witness:
  "''High'' \<noteq> ''All''
   \<and> map id_tx (filterByRisk mockTransactions ''High'') = [''1'', ''3'']
   \<and> subseq (filterByRisk mockTransactions ''High'') mockTransactions"
proof -
  have h: "''High'' \<noteq> ''All''" by simp
  have "map id_tx (filter (\<lambda>t. risk_str (risk t) = ''High'') mockTransactions) = [''1'', ''3'']"
    by (simp add: mockTransactions_def)
  with filterByRisk_subsequence [OF h, of mockTransactions] show ?thesis
    by simp
qed

text \<open>
  C5. For every list of transactions \<open>T\<close>, filtering with the sentinel \<open>''All''\<close> returns
  \<open>T\<close> unchanged.
\<close>

theorem filterByRisk_All: "filterByRisk T ''All'' = T"
  by (simp add: filterByRisk_def keepTransaction_def array_filter_eq)

text \<open>
  C3. The select of the risk filter offers \<open>''All Risk Levels''\<close> and not \<open>''All''\<close>,
  which is only the initial value of the state. Choosing \<open>''All Risk Levels''\<close> is possible
  in every state, and with it the filter keeps the transactions whose risk is the string
  \<open>''All Risk Levels''\<close>: none, whatever the list.
\<close>

theorem riskFilter_label_keeps_nothing:
  "riskFilter initial = ''All''
   \<and> ''All'' \<notin> set riskOptions
   \<and> ''All Risk Levels'' \<in> set riskOptions
   \<and> step (RiskFilterChange ''All Risk Levels'') s = Some (setRiskFilter ''All Risk Levels'' s)
   \<and> filterByRisk T ''All Risk Levels'' = []
   \<and> filteredTransactions (setRiskFilter ''All Risk Levels'' s) = []"
proof -
  have k: "keepTransaction ''All Risk Levels'' = (\<lambda>t. False)"
  proof
    fix t
    show "keepTransaction ''All Risk Levels'' t = False"
      by (cases "risk t") (simp_all add: keepTransaction_def)
  qed
  have f: "filterByRisk U ''All Risk Levels'' = []" for U
    by (simp add: filterByRisk_def k array_filter_eq)
  show ?thesis
    by (simp add: f initial_def riskOptions_def filteredTransactions_def setRiskFilter_def)
qed

text \<open>
  C9. The filtered sequence depends on the transaction list and the risk filter only: two
  states that agree on both have the same filtered sequence, whatever their date range
  and region, and choosing a date range or a region leaves the filtered sequence as it is.
\<close>

theorem filteredTransactions_ignores_dateRange_region:
  assumes "transactions s1 = transactions s2" and "riskFilter s1 = riskFilter s2"
  shows "filteredTransactions s1 = filteredTransactions s2
         \<and> filteredTransactions (setDateRange d s1) = filteredTransactions s1
         \<and> filteredTransactions (setRegion r s1) = filteredTransactions s1"
  using assms by (simp add: filteredTransactions_def setDateRange_def setRegion_def)

theorem filteredTransactions_ignores_dateRange_region_witness:
  "transactions initial = transactions (initial\<lparr>dateRange := ''Last 7 days'', region := ''Moscow''\<rparr>)
   \<and> riskFilter initial = riskFilter (initial\<lparr>dateRange := ''Last 7 days'', region := ''Moscow''\<rparr>)
   \<and> dateRange initial \<noteq> dateRange (initial\<lparr>dateRange := ''Last 7 days'', region := ''Moscow''\<rparr>)
   \<and> region initial \<noteq> region (initial\<lparr>dateRange := ''Last 7 days'', region := ''Moscow''\<rparr>)
   \<and> filteredTransactions initial
       = filteredTransactions (initial\<lparr>dateRange := ''Last 7 days'', region := ''Moscow''\<rparr>)"
proof -
  have t: "transactions initial
           = transactions (initial\<lparr>dateRange := ''Last 7 days'', region := ''Moscow''\<rparr>)"
    by simp
  have r: "riskFilter initial
           = riskFilter (initial\<lparr>dateRange := ''Last 7 days'', region := ''Moscow''\<rparr>)"
    by simp
  have d: "dateRange initial \<noteq> ''Last 7 days''" and g: "region initial \<noteq> ''Moscow''"
    by (simp_all add: initial_def)
  from filteredTransactions_ignores_dateRange_region [OF t r] d g show ?thesis
    by simp
qed

section \<open>Properties of the handlers\<close>

lemmas setters = setSelectedKPI_def setPeriod_def setExpandedRows_def setDateRange_def
  setRegion_def setRiskFilter_def setSavedOffers_def console_log_def alert_def

lemmas handlers = toggleRow_def toggleSave_def markAsReviewed_def

text \<open>
  C6. Each toggle is its own inverse: toggling the same id twice gives the state back, so
  the set of expanded rows and the set of saved stations are as before. Starting from the
  empty set of saved stations, toggling station 1 twice leaves it empty.
\<close>

theorem toggle_twice:
  "toggleRow i (toggleRow i s) = s
   \<and> expandedRows (toggleRow i (toggleRow i s)) = expandedRows s
   \<and> toggleSave j (toggleSave j s) = s
   \<and> savedOffers (toggleSave j (toggleSave j s)) = savedOffers s
   \<and> savedOffers initial = {}
   \<and> savedOffers (toggleSave 1 (toggleSave 1 initial)) = {}"
proof -
  have a: "toggleRow i (toggleRow i s) = s"
    by (auto simp: toggleRow_def setExpandedRows_def Let_def insert_absorb)
  have b: "toggleSave k (toggleSave k u) = u" for k u
    by (auto simp: toggleSave_def setSavedOffers_def Let_def insert_absorb)
  have c: "savedOffers initial = {}"
    by (simp add: initial_def)
  show ?thesis
    by (simp add: a b c)
qed

text \<open>
  C4, as the code has it. A toggle never fails, and toggling an id that is not in the set
  is not a no-op: it inserts the id, so the set becomes the former set with the id added
  (for the rows as for the saved stations).
\<close>

theorem toggle_absent_inserts:
  "(i \<notin> expandedRows s \<longrightarrow> expandedRows (toggleRow i s) = insert i (expandedRows s))
   \<and> (j \<notin> savedOffers s \<longrightarrow> savedOffers (toggleSave j s) = insert j (savedOffers s))"
  by (simp add: toggleRow_def toggleSave_def setExpandedRows_def setSavedOffers_def Let_def)

theorem toggle_absent_inserts_witness:
  "''1'' \<notin> expandedRows initial \<and> expandedRows (toggleRow ''1'' initial) = {''1''}
   \<and> 1 \<notin> savedOffers initial \<and> savedOffers (toggleSave 1 initial) = {1}"
proof -
  have e: "expandedRows initial = {}" and v: "savedOffers initial = {}"
    by (simp_all add: initial_def)
  from toggle_absent_inserts [of "''1''" initial 1] e v show ?thesis
    by simp
qed

text \<open>
  C4, as the specification words it, fails: in the initial state the id \<open>''1''\<close> is not
  expanded and station 1 is not saved, and the toggle changes the set in both cases.
\<close>

theorem toggle_absent_not_noop:
  "''1'' \<notin> expandedRows initial
   \<and> expandedRows (toggleRow ''1'' initial) \<noteq> expandedRows initial
   \<and> 1 \<notin> savedOffers initial
   \<and> savedOffers (toggleSave 1 initial) \<noteq> savedOffers initial"
  by (simp add: toggleRow_def toggleSave_def setExpandedRows_def setSavedOffers_def Let_def
      initial_def)

lemma markAsReviewed_funpow:
  "(markAsReviewed i ^^ n) s =
     s\<lparr>console := console s @ replicate n (auditMessage i),
       alerts := alerts s @ replicate n (auditMessage i)\<rparr>"
proof (induction n)
  case 0
  show ?case by simp
next
  case (Suc n)
  then show ?case
    by (simp add: markAsReviewed_def console_log_def alert_def replicate_append_same)
qed

text \<open>
  C2, as the code has it. \<open>markAsReviewed\<close> emits the audit message that names the id, once
  to the console and once as an alert, and changes nothing else: the transactions, and
  with them the \<open>reviewed\<close> field of the transaction, are as before. After \<open>n\<close> invocations
  the transactions are still as before and \<open>n\<close> messages have been added to each log.
\<close>

theorem markAsReviewed_only_logs:
  "markAsReviewed i s =
     s\<lparr>console := console s @ [auditMessage i], alerts := alerts s @ [auditMessage i]\<rparr>
   \<and> transactions (markAsReviewed i s) = transactions s
   \<and> reviewedOf i (transactions (markAsReviewed i s)) = reviewedOf i (transactions s)
   \<and> transactions ((markAsReviewed i ^^ n) s) = transactions s
   \<and> reviewedOf i (transactions ((markAsReviewed i ^^ n) s)) = reviewedOf i (transactions s)
   \<and> console ((markAsReviewed i ^^ n) s) = console s @ replicate n (auditMessage i)
   \<and> alerts ((markAsReviewed i ^^ n) s) = alerts s @ replicate n (auditMessage i)"
  by (simp add: markAsReviewed_funpow) (simp add: markAsReviewed_def console_log_def alert_def)

text \<open>
  C2, as the specification words it, fails: transaction \<open>''1''\<close> is in the catalog and shows
  the button, and after the handler has run, once or twice, its \<open>reviewed\<close> field is still
  false.
\<close>

theorem markAsReviewed_leaves_unreviewed:
  "step (MarkReviewedClick (mockTransactions ! 0)) initial = Some (markAsReviewed ''1'' initial)
   \<and> reviewedOf ''1'' (transactions initial) = Some False
   \<and> reviewedOf ''1'' (transactions (markAsReviewed ''1'' initial)) = Some False
   \<and> reviewedOf ''1'' (transactions (markAsReviewed ''1'' (markAsReviewed ''1'' initial)))
       = Some False"
  by (simp add: mockTransactions_def initial_def markAsReviewed_def console_log_def alert_def
      filteredTransactions_def filterByRisk_def keepTransaction_def)

section \<open>Properties of the event runs\<close>

lemma step_transactions: "step e s = Some s' \<Longrightarrow> transactions s' = transactions s"
  by (cases e) (auto simp: handlers setters Let_def split: if_splits)

lemma step_series: "step e s = Some s' \<Longrightarrow> series s' = series s"
  by (cases e) (auto simp: handlers setters Let_def split: if_splits)

lemma step_expandedRows:
  assumes "step e s = Some s'"
  shows "expandedRows s' \<subseteq> expandedRows s \<union> set (map id_tx (transactions s))"
proof (cases e)
  case (RowClick t)
  with assms have "t \<in> set (filteredTransactions s)" and s': "s' = toggleRow (id_tx t) s"
    by (auto split: if_splits)
  then have "t \<in> set (transactions s)"
    by (simp add: filteredTransactions_def filterByRisk_def array_filter_eq)
  then show ?thesis
    by (auto simp: s' toggleRow_def setExpandedRows_def Let_def)
qed (use assms in \<open>auto simp: handlers setters Let_def split: if_splits\<close>)

lemma run_catalogs_rows:
  "run es s = Some s' \<Longrightarrow>
     transactions s' = transactions s \<and> series s' = series s
     \<and> expandedRows s' \<subseteq> expandedRows s \<union> set (map id_tx (transactions s))"
proof (induction es arbitrary: s)
  case Nil
  then show ?case by simp
next
  case (Cons e es)
  then obtain u where u: "step e s = Some u" and r: "run es u = Some s'"
    by (auto split: option.splits)
  from Cons.IH [OF r] step_transactions [OF u] step_series [OF u] step_expandedRows [OF u]
  show ?case by auto
qed

text \<open>
  C7. In every state that the events can reach from the initial state, the expanded rows
  are ids of transactions of the catalog (which is still the sample catalog): the set
  starts empty and a row is only toggled through a click on a rendered row.
\<close>

theorem expandedRows_within_catalog:
  assumes "run es initial = Some s"
  shows "transactions s = mockTransactions
         \<and> expandedRows s \<subseteq> set (map id_tx mockTransactions)"
  using run_catalogs_rows [OF assms] by (simp add: initial_def)

theorem expandedRows_within_catalog_witness:
  "run [RowClick (mockTransactions ! 0), RiskFilterChange ''Low'',
        RowClick (mockTransactions ! 1)] initial
     = Some (initial\<lparr>expandedRows := {''1'', ''2''}, riskFilter := ''Low''\<rparr>)
   \<and> expandedRows (initial\<lparr>expandedRows := {''1'', ''2''}, riskFilter := ''Low''\<rparr>)
       \<subseteq> set (map id_tx mockTransactions)"
proof -
  have r: "run [RowClick (mockTransactions ! 0), RiskFilterChange ''Low'',
                RowClick (mockTransactions ! 1)] initial
           = Some (initial\<lparr>expandedRows := {''1'', ''2''}, riskFilter := ''Low''\<rparr>)"
    by (simp add: mockTransactions_def initial_def toggleRow_def setExpandedRows_def
        setRiskFilter_def Let_def filteredTransactions_def filterByRisk_def keepTransaction_def
        riskOptions_def insert_commute)
  from expandedRows_within_catalog [OF r] r show ?thesis
    by simp
qed

text \<open>
  C10. The period buttons are cosmetic: a click on one stores the period and changes no
  other part of the state, so the series and the data handed to the chart are as before.
  In every state reachable from the initial one the chart is fed the seven points of
  \<open>chartData\<close>, whatever the period.
\<close>

theorem setPeriod_cosmetic:
  "step (PeriodClick p) s = Some (setPeriod p s)
   \<and> setPeriod p s = s\<lparr>period := p\<rparr>
   \<and> period (setPeriod p s) = p
   \<and> series (setPeriod p s) = series s
   \<and> lineChartData (setPeriod p s) = lineChartData s
   \<and> (run es initial = Some u \<longrightarrow> lineChartData u = chartData)"
proof -
  have "lineChartData u = chartData" if "run es initial = Some u"
    using run_catalogs_rows [OF that] by (simp add: lineChartData_def initial_def)
  then show ?thesis
    by (simp add: setPeriod_def lineChartData_def)
qed

theorem setPeriod_cosmetic_witness:
  "run [PeriodClick Day, PeriodClick Month] initial = Some (initial\<lparr>period := Month\<rparr>)
   \<and> lineChartData (initial\<lparr>period := Month\<rparr>) = chartData
   \<and> length chartData = 7"
proof -
  have r: "run [PeriodClick Day, PeriodClick Month] initial = Some (initial\<lparr>period := Month\<rparr>)"
    by (simp add: setPeriod_def)
  from setPeriod_cosmetic [of Month initial "[PeriodClick Day, PeriodClick Month]"
      "initial\<lparr>period := Month\<rparr>"] r
  show ?thesis
    by (simp add: chartData_def)
qed

lemma step_non_dialog:
  "\<not> dialogEvent e \<Longrightarrow> step e s = Some s' \<Longrightarrow> selectedKPI s' = selectedKPI s"
  by (cases e) (auto simp: handlers setters Let_def split: if_splits)

lemma run_non_dialog:
  "list_all (\<lambda>e. \<not> dialogEvent e) es \<Longrightarrow> run es s = Some s' \<Longrightarrow> selectedKPI s' = selectedKPI s"
proof (induction es arbitrary: s)
  case Nil
  then show ?case by simp
next
  case (Cons e es)
  then obtain u where u: "step e s = Some u" and r: "run es u = Some s'"
    by (auto split: option.splits)
  from Cons.prems(1) have "\<not> dialogEvent e" and "list_all (\<lambda>e. \<not> dialogEvent e) es"
    by simp_all
  with Cons.IH [OF _ r] step_non_dialog [OF _ u] show ?case
    by simp
qed

lemma kpi_id_nonempty: "k \<in> set kpis \<Longrightarrow> id_kpi k \<noteq> []"
  by (auto simp: kpis_def)

text \<open>
  C8. The drill-down dialog is a state machine over closed and open-on-an-id. It starts
  closed. A click on the card of a KPI opens it on the id of that KPI, from any state.
  When it is open, the button \<open>Close\<close> and a click on the overlay outside the dialog
  surface close it. Scenario: after the card of \<open>''revenue''\<close> has been clicked, any run
  of events that are not events of the dialog (row and station toggles, clicks on the
  dialog surface, filter and period changes) leaves it open on \<open>''revenue''\<close>, and
  \<open>Close\<close> then closes it.
\<close>

theorem dialog_lifecycle:
  "dialogState initial = Closed
   \<and> (k \<in> set kpis \<longrightarrow>
        step (KPICardClick k) s = Some (setSelectedKPI (Some (id_kpi k)) s)
        \<and> dialogState (setSelectedKPI (Some (id_kpi k)) s) = Open (id_kpi k))
   \<and> (dialogState so = Open i \<longrightarrow>
        step CloseClick so = Some (setSelectedKPI None so)
        \<and> step OverlayClick so = Some (setSelectedKPI None so)
        \<and> dialogState (setSelectedKPI None so) = Closed)
   \<and> (list_all (\<lambda>e. \<not> dialogEvent e) es
        \<and> step (KPICardClick (kpis ! 0)) s0 = Some s1 \<and> run es s1 = Some s2 \<longrightarrow>
        dialogState s1 = Open ''revenue''
        \<and> dialogState s2 = Open ''revenue''
        \<and> step CloseClick s2 = Some (setSelectedKPI None s2)
        \<and> dialogState (setSelectedKPI None s2) = Closed)"
proof -
  have a: "dialogState initial = Closed"
    by (simp add: dialogState_def initial_def)
  have b: "step (KPICardClick k) s = Some (setSelectedKPI (Some (id_kpi k)) s)
           \<and> dialogState (setSelectedKPI (Some (id_kpi k)) s) = Open (id_kpi k)"
    if "k \<in> set kpis"
    using that kpi_id_nonempty [OF that]
    by (simp add: dialogState_def dialogRendered_def setSelectedKPI_def)
  have c: "step CloseClick u = Some (setSelectedKPI None u)
           \<and> step OverlayClick u = Some (setSelectedKPI None u)
           \<and> dialogState (setSelectedKPI None u) = Closed"
    if "dialogState u = Open v" for u v
    using that
    by (auto simp: dialogState_def dialogRendered_def setSelectedKPI_def
        split: option.splits if_splits)
  have d: "dialogState s1 = Open ''revenue''
           \<and> dialogState s2 = Open ''revenue''
           \<and> step CloseClick s2 = Some (setSelectedKPI None s2)
           \<and> dialogState (setSelectedKPI None s2) = Closed"
    if n: "list_all (\<lambda>e. \<not> dialogEvent e) es"
      and o: "step (KPICardClick (kpis ! 0)) s0 = Some s1"
      and r: "run es s1 = Some s2"
  proof -
    from o have k1: "selectedKPI s1 = Some ''revenue''"
      by (auto simp: kpis_def setSelectedKPI_def split: if_splits)
    with run_non_dialog [OF n r] have k2: "selectedKPI s2 = Some ''revenue''"
      by simp
    have o1: "dialogState s1 = Open ''revenue''"
      using k1 by (simp add: dialogState_def dialogRendered_def)
    have o2: "dialogState s2 = Open ''revenue''"
      using k2 by (simp add: dialogState_def dialogRendered_def)
    from c [OF o2] o1 o2 show ?thesis
      by simp
  qed
  from a b c d show ?thesis
    by blast
qed

text \<open>
  The scenario on the sample data: open on \<open>''revenue''\<close>, expand row 1, save station 1,
  click inside the dialog, then close.
\<close>

theorem dialog_lifecycle_witness:
  "kpis ! 0 \<in> set kpis
   \<and> step (KPICardClick (kpis ! 0)) initial = Some (initial\<lparr>selectedKPI := Some ''revenue''\<rparr>)
   \<and> dialogState (initial\<lparr>selectedKPI := Some ''revenue''\<rparr>) = Open ''revenue''
   \<and> list_all (\<lambda>e. \<not> dialogEvent e)
        [RowClick (mockTransactions ! 0), SaveClick (topStations ! 0), DialogClick]
   \<and> run [RowClick (mockTransactions ! 0), SaveClick (topStations ! 0), DialogClick]
        (initial\<lparr>selectedKPI := Some ''revenue''\<rparr>)
       = Some (initial\<lparr>selectedKPI := Some ''revenue'', expandedRows := {''1''},
                 savedOffers := {1}\<rparr>)
   \<and> step CloseClick
        (initial\<lparr>selectedKPI := Some ''revenue'', expandedRows := {''1''}, savedOffers := {1}\<rparr>)
       = Some (initial\<lparr>selectedKPI := None, expandedRows := {''1''}, savedOffers := {1}\<rparr>)
   \<and> dialogState (initial\<lparr>selectedKPI := None, expandedRows := {''1''}, savedOffers := {1}\<rparr>)
       = Closed"
proof -
  let ?s1 = "initial\<lparr>selectedKPI := Some ''revenue''\<rparr>"
  let ?s2 = "initial\<lparr>selectedKPI := Some ''revenue'', expandedRows := {''1''},
               savedOffers := {1}\<rparr>"
  let ?s3 = "initial\<lparr>selectedKPI := None, expandedRows := {''1''}, savedOffers := {1}\<rparr>"
  let ?es = "[RowClick (mockTransactions ! 0), SaveClick (topStations ! 0), DialogClick]"
  have k: "kpis ! 0 \<in> set kpis"
    by (simp add: kpis_def)
  have n: "list_all (\<lambda>e. \<not> dialogEvent e) ?es"
    by simp
  have o: "step (KPICardClick (kpis ! 0)) initial = Some ?s1"
    using k by (simp add: setSelectedKPI_def) (simp add: kpis_def)
  have r: "run ?es ?s1 = Some ?s2"
    by (simp add: mockTransactions_def topStations_def initial_def toggleRow_def toggleSave_def
        setExpandedRows_def setSavedOffers_def Let_def filteredTransactions_def filterByRisk_def
        keepTransaction_def dialogRendered_def)
  have p: "dialogState ?s1 = Open ''revenue''"
    by (simp add: dialogState_def dialogRendered_def)
  have e: "setSelectedKPI None ?s2 = ?s3"
    by (simp add: setSelectedKPI_def)
  from dialog_lifecycle [of "kpis ! 0" initial ?s1 "''revenue''" ?es initial ?s1 ?s2] k n o r p
  have "step CloseClick ?s2 = Some (setSelectedKPI None ?s2)
        \<and> dialogState (setSelectedKPI None ?s2) = Closed"
    by blast
  then have c: "step CloseClick ?s2 = Some ?s3" and f: "dialogState ?s3 = Closed"
    unfolding e by blast+
  from k o p n r c f show ?thesis
    by blast
qed

end
